theory Spec2Isabelle
  imports Main "HOL-Library.Word"
begin

section \<open>The x2017 virtual machine: data model\<close>

text \<open>
  The embedding follows \<^verbatim>\<open>src/src/vm_x2017.c\<close> and \<^verbatim>\<open>src/lib/vm_x2017.h\<close>.
  Every \<^verbatim>\<open>uint8_t\<close> is an \<open>8 word\<close>: addition, subtraction and increment wrap
  modulo 256, comparison is unsigned.
\<close>

type_synonym byte = "8 word"

text \<open>
  Modelled from the spec: the types \<^verbatim>\<open>inst_t\<close> and \<^verbatim>\<open>arg_t\<close> of the absent
  \<^verbatim>\<open>parser.h\<close>. An instruction is an opcode tag plus two operand slots; an operand is
  a mode tag (\<^verbatim>\<open>VAL\<close>, \<^verbatim>\<open>REG\<close>, \<^verbatim>\<open>STACK\<close>, \<^verbatim>\<open>PTR\<close>) plus a byte value. The opcodes are
  the eight cases of the \<^verbatim>\<open>switch\<close> in \<^verbatim>\<open>run_instruction\<close>, the modes the four cases of
  the \<^verbatim>\<open>switch\<close> in \<^verbatim>\<open>mov\<close> and \<^verbatim>\<open>arg_value\<close>.
\<close>

datatype opcode_t = MOV | CAL | RET | REF | ADD | PRINT | NOT | EQU

datatype arg_type_t = VAL | REG | STACK | PTR

record arg_t =
  type :: arg_type_t
  "value" :: byte

record inst_t =
  opcode :: opcode_t
  arg1 :: arg_t
  arg2 :: arg_t

text \<open>The two constants of \<^verbatim>\<open>vm_x2017.h\<close>, and \<^verbatim>\<open>UINT8_MAX\<close> of the C library.\<close>

definition RAM_SIZE :: nat where
  "RAM_SIZE = 2 ^ 8"

definition NUM_REGISTERS :: nat where
  "NUM_REGISTERS = 8"

definition UINT8_MAX :: byte where
  "UINT8_MAX = 255"

text \<open>
  Modelled from the spec: the capacity constants \<^verbatim>\<open>MAX_FUNCTIONS\<close>, \<^verbatim>\<open>MAIN_FUNC\<close>,
  \<^verbatim>\<open>STACK_START\<close>, \<^verbatim>\<open>STACK_MAX\<close> and the macro \<^verbatim>\<open>STACK_LOC\<close> of the absent
  \<^verbatim>\<open>parser.h\<close>. The spec leaves their values open (configuration parameters), so they
  are the fields of a configuration that every operation takes. \<^verbatim>\<open>STACK_LOC\<close> resolves an
  operand's symbolic offset against the current stack pointer to a RAM address; every use
  in the source stores the result in a \<^verbatim>\<open>uint8_t\<close> register, so it yields a byte.
\<close>

record config =
  MAX_FUNCTIONS :: nat
  MAIN_FUNC :: nat
  STACK_START :: nat
  STACK_MAX :: nat
  STACK_LOC :: "byte \<Rightarrow> byte \<Rightarrow> byte"

text \<open>
  Modelled from the spec: the macros \<^verbatim>\<open>STACK_PTR\<close> and \<^verbatim>\<open>PROG_CTR\<close> of the absent
  \<^verbatim>\<open>parser.h\<close>. The spec describes the stack pointer and the program counter as the
  machine's own mutable state, not threaded through the operations as parameters and not
  instruction operands; both are stored into RAM bytes, so both are bytes. They are the
  fields \<open>stack_ptr\<close> and \<open>prog_ctr\<close> of the machine state, next to \<^verbatim>\<open>ram\<close>
  (\<^verbatim>\<open>RAM_SIZE\<close> = 256 bytes, so every byte is a valid index), \<^verbatim>\<open>registers\<close>
  (\<^verbatim>\<open>NUM_REGISTERS\<close> = 8 bytes; an index of 8 or more is out of range) and the lines
  written by \<^verbatim>\<open>printf\<close>.
\<close>

record vm_state =
  ram :: "byte \<Rightarrow> byte"
  registers :: "byte \<Rightarrow> byte"
  stack_ptr :: byte
  prog_ctr :: byte
  stdout :: "byte list"

text \<open>
  Modelled from the spec: the macros \<^verbatim>\<open>INSTR_ADDR\<close> and \<^verbatim>\<open>FRAME_SIZE\<close> of the absent
  \<^verbatim>\<open>parser.h\<close>: the function-address table and the frame-size table, both in RAM and
  both indexed by the function label. \<^verbatim>\<open>vm_x2017\<close> initialises the function addresses
  as \<^verbatim>\<open>ram[i]\<close> for \<^verbatim>\<open>i < MAX_FUNCTIONS\<close>, and \<^verbatim>\<open>call_function\<close> reads the frame size
  as \<^verbatim>\<open>ram[MAX_FUNCTIONS + label]\<close>. Each definition gives the (\<^verbatim>\<open>int\<close>) index into
  \<^verbatim>\<open>ram\<close>.
\<close>

definition INSTR_ADDR :: "nat \<Rightarrow> nat" where
  "INSTR_ADDR label = label"

definition FRAME_SIZE :: "config \<Rightarrow> nat \<Rightarrow> nat" where
  "FRAME_SIZE cfg label = MAX_FUNCTIONS cfg + label"

text \<open>
  \<^verbatim>\<open>errx\<close> ends the process: the model returns the format string and its arguments,
  together with the machine state at that moment. An array index beyond the array is
  undefined in C; the model stops there with \<open>Out_of_bounds\<close>.
\<close>

datatype error = Errx string "byte list" | Out_of_bounds

type_synonym 'a result = "(error \<times> vm_state) + 'a"

section \<open>The address resolver\<close>

definition arg_value :: "config \<Rightarrow> arg_t \<Rightarrow> vm_state \<Rightarrow> (byte \<times> vm_state) result" where
  "arg_value cfg arg s =
    (case type arg of
       VAL \<Rightarrow> Inr (value arg, s)
     | REG \<Rightarrow>
         if unat (value arg) < NUM_REGISTERS then Inr (registers s (value arg), s)
         else Inl (Out_of_bounds, s)
     | STACK \<Rightarrow>
         let s1 = s\<lparr>registers := (registers s)(4 := STACK_LOC cfg (stack_ptr s) (value arg))\<rparr>
         in Inr (ram s1 (registers s1 4), s1)
     | PTR \<Rightarrow>
         let s1 = s\<lparr>registers := (registers s)(4 := STACK_LOC cfg (stack_ptr s) (value arg))\<rparr>;
             s2 = s1\<lparr>registers := (registers s1)(5 := ram s1 (registers s1 4))\<rparr>
         in Inr (ram s2 (registers s2 5), s2))"

definition mov :: "config \<Rightarrow> arg_t \<Rightarrow> vm_state \<Rightarrow> vm_state result" where
  "mov cfg arg s =
    (case type arg of
       REG \<Rightarrow>
         if unat (value arg) < NUM_REGISTERS
         then Inr (s\<lparr>registers := (registers s)(value arg := registers s 4)\<rparr>)
         else Inl (Out_of_bounds, s)
     | STACK \<Rightarrow>
         let s1 = s\<lparr>registers := (registers s)(5 := STACK_LOC cfg (stack_ptr s) (value arg))\<rparr>
         in Inr (s1\<lparr>ram := (ram s1)(registers s1 5 := registers s1 4)\<rparr>)
     | PTR \<Rightarrow>
         let s1 = s\<lparr>registers := (registers s)(5 := STACK_LOC cfg (stack_ptr s) (value arg))\<rparr>;
             s2 = s1\<lparr>registers := (registers s1)(5 := ram s1 (registers s1 5))\<rparr>
         in Inr (s2\<lparr>ram := (ram s2)(registers s2 5 := registers s2 4)\<rparr>)
     | VAL \<Rightarrow> Inr s)"

section \<open>The call manager\<close>

text \<open>
  \<^verbatim>\<open>STACK_MAX - ram[MAX_FUNCTIONS + label] - 4\<close> is computed in \<^verbatim>\<open>int\<close> and truncated to
  a byte by the assignment to \<^verbatim>\<open>registers[4]\<close>. The index \<^verbatim>\<open>MAX_FUNCTIONS + label\<close> is
  an \<^verbatim>\<open>int\<close> and can leave the array; \<^verbatim>\<open>ram[label]\<close> cannot.
\<close>

definition call_function :: "config \<Rightarrow> byte \<Rightarrow> vm_state \<Rightarrow> vm_state result" where
  "call_function cfg label s =
    (if \<not> FRAME_SIZE cfg (unat label) < RAM_SIZE then Inl (Out_of_bounds, s)
     else
       let fsz = ram s (word_of_nat (FRAME_SIZE cfg (unat label)));
           s1 = s\<lparr>registers := (registers s)(4 := word_of_int (int (STACK_MAX cfg) - uint fsz - 4))\<rparr>
       in
         if stack_ptr s1 > registers s1 4
         then Inl (Errx ''Stack overflow detected when trying to call function %d'' [label], s1)
         else
           let s2 = s1\<lparr>registers := (registers s1)(4 := stack_ptr s1 + 2
                         + ram s1 (word_of_nat (FRAME_SIZE cfg (unat label))))\<rparr>;
               s3 = s2\<lparr>registers := (registers s2)(5 := registers s2 4 + 1)\<rparr>;
               s4 = s3\<lparr>ram := (ram s3)(registers s3 5 := stack_ptr s3)\<rparr>;
               s5 = s4\<lparr>registers := (registers s4)(5 := registers s4 5 + 1)\<rparr>;
               s6 = s5\<lparr>ram := (ram s5)(registers s5 5 := prog_ctr s5)\<rparr>;
               s7 = s6\<lparr>stack_ptr := registers s6 4\<rparr>
           in Inr (s7\<lparr>prog_ctr := ram s7 (word_of_nat (INSTR_ADDR (unat label)))\<rparr>))"

section \<open>The instruction dispatcher\<close>

definition run_instruction :: "config \<Rightarrow> inst_t \<Rightarrow> vm_state \<Rightarrow> (byte \<times> vm_state) result" where
  "run_instruction cfg inst s =
    (case opcode inst of
       MOV \<Rightarrow>
         if type (arg1 inst) = VAL
         then Inl (Errx ''first argument to MOV must not be value typed.'' [], s)
         else
           (case arg_value cfg (arg2 inst) s of
              Inl e \<Rightarrow> Inl e
            | Inr (v, s1) \<Rightarrow>
                (case mov cfg (arg1 inst) (s1\<lparr>registers := (registers s1)(4 := v)\<rparr>) of
                   Inl e \<Rightarrow> Inl e
                 | Inr s2 \<Rightarrow> Inr (0, s2)))
     | CAL \<Rightarrow>
         if type (arg1 inst) \<noteq> VAL
         then Inl (Errx ''first argument to CAL must be value typed.'' [], s)
         else
           (case call_function cfg (value (arg1 inst)) s of
              Inl e \<Rightarrow> Inl e
            | Inr s1 \<Rightarrow> Inr (0, s1))
     | RET \<Rightarrow>
         let s1 = s\<lparr>registers := (registers s)(4 := stack_ptr s + 1)\<rparr>
         in
           if ram s1 (registers s1 4) = 0 then Inr (1, s1)
           else
             let s2 = s1\<lparr>stack_ptr := ram s1 (registers s1 4)\<rparr>;
                 s3 = s2\<lparr>registers := (registers s2)(4 := registers s2 4 + 1)\<rparr>
             in Inr (0, s3\<lparr>prog_ctr := ram s3 (registers s3 4)\<rparr>)
     | REF \<Rightarrow>
         if type (arg2 inst) \<noteq> STACK \<and> type (arg2 inst) \<noteq> PTR
         then Inl (Errx ''second argument to REF must be stack or pointer typed.'' [], s)
         else
           let s1 = s\<lparr>registers := (registers s)(4 :=
                         STACK_LOC cfg (stack_ptr s) (value (arg2 inst)))\<rparr>;
               s2 = (if type (arg2 inst) = PTR
                     then s1\<lparr>registers := (registers s1)(4 := ram s1 (registers s1 4))\<rparr>
                     else s1)
           in
             (case mov cfg (arg1 inst) s2 of
                Inl e \<Rightarrow> Inl e
              | Inr s3 \<Rightarrow> Inr (0, s3))
     | ADD \<Rightarrow>
         if type (arg1 inst) \<noteq> REG \<or> type (arg2 inst) \<noteq> REG
         then Inl (Errx ''both arguments to ADD must be register typed.'' [], s)
         else if unat (value (arg1 inst)) < NUM_REGISTERS \<and> unat (value (arg2 inst)) < NUM_REGISTERS
         then Inr (0, s\<lparr>registers := (registers s)(value (arg1 inst) :=
                         registers s (value (arg1 inst)) + registers s (value (arg2 inst)))\<rparr>)
         else Inl (Out_of_bounds, s)
     | PRINT \<Rightarrow>
         (case arg_value cfg (arg1 inst) s of
            Inl e \<Rightarrow> Inl e
          | Inr (v, s1) \<Rightarrow>
              let s2 = s1\<lparr>registers := (registers s1)(4 := v)\<rparr>
              in Inr (0, s2\<lparr>stdout := stdout s2 @ [registers s2 4]\<rparr>))
     | NOT \<Rightarrow>
         if type (arg1 inst) \<noteq> REG
         then Inl (Errx ''first argument to NOT must be register typed.'' [], s)
         else if unat (value (arg1 inst)) < NUM_REGISTERS
         then Inr (0, s\<lparr>registers := (registers s)(value (arg1 inst) :=
                         not (registers s (value (arg1 inst))))\<rparr>)
         else Inl (Out_of_bounds, s)
     | EQU \<Rightarrow>
         if type (arg1 inst) \<noteq> REG
         then Inl (Errx ''first argument to EQU must be register typed.'' [], s)
         else if unat (value (arg1 inst)) < NUM_REGISTERS
         then Inr (0, s\<lparr>registers := (registers s)(value (arg1 inst) :=
                         (if registers s (value (arg1 inst)) = 0 then 1 else 0))\<rparr>)
         else Inl (Out_of_bounds, s))"

section \<open>Entry and the fetch-execute loop of \<^verbatim>\<open>vm_x2017\<close>\<close>

text \<open>
  \<^verbatim>\<open>vm_x2017\<close> first lays the functions out into the flat array \<^verbatim>\<open>instructions\<close> and
  fills the two tables in RAM. The definitions below take the result of that layout as
  given (the flat instruction array, and a state whose RAM holds the tables) and embed the
  rest of the function: \<open>vm_x2017_entry\<close> is the text from
  \<^verbatim>\<open>PROG_CTR = INSTR_ADDR(MAIN_FUNC)\<close> to \<^verbatim>\<open>ram[STACK_PTR + 1] = 0\<close>, where the
  indices \<^verbatim>\<open>MAIN_FUNC\<close>, \<^verbatim>\<open>MAX_FUNCTIONS + MAIN_FUNC\<close> and \<^verbatim>\<open>STACK_PTR + 1\<close> are
  \<^verbatim>\<open>int\<close>s that can leave the array.
\<close>

definition vm_x2017_entry :: "config \<Rightarrow> vm_state \<Rightarrow> vm_state result" where
  "vm_x2017_entry cfg s =
    (if \<not> INSTR_ADDR (MAIN_FUNC cfg) < RAM_SIZE then Inl (Out_of_bounds, s)
     else
       let s1 = s\<lparr>prog_ctr := ram s (word_of_nat (INSTR_ADDR (MAIN_FUNC cfg)))\<rparr>
       in
         if prog_ctr s1 = UINT8_MAX then Inl (Errx ''No main function found'' [], s1)
         else if \<not> FRAME_SIZE cfg (MAIN_FUNC cfg) < RAM_SIZE then Inl (Out_of_bounds, s1)
         else
           let s2 = s1\<lparr>stack_ptr := word_of_nat (STACK_START cfg)
                         + ram s1 (word_of_nat (FRAME_SIZE cfg (MAIN_FUNC cfg)))\<rparr>
           in
             if \<not> unat (stack_ptr s2) + 1 < RAM_SIZE then Inl (Out_of_bounds, s2)
             else Inr (s2\<lparr>ram := (ram s2)(word_of_nat (unat (stack_ptr s2) + 1) := 0)\<rparr>))"

text \<open>
  One evaluation of the loop condition \<^verbatim>\<open>run_instruction(instructions[PROG_CTR++], ram,
  registers)\<close>: the instruction at the program counter is fetched, the counter is
  incremented, then the instruction runs.
\<close>

definition fetch_execute :: "config \<Rightarrow> inst_t list \<Rightarrow> vm_state \<Rightarrow> (byte \<times> vm_state) result" where
  "fetch_execute cfg instructions s =
    (if \<not> unat (prog_ctr s) < length instructions then Inl (Out_of_bounds, s)
     else run_instruction cfg (instructions ! unat (prog_ctr s))
            (s\<lparr>prog_ctr := prog_ctr s + 1\<rparr>))"

text \<open>
  The loop \<^verbatim>\<open>while (!run_instruction(...)) {}\<close> can run forever, so it takes fuel:
  \<open>None\<close> is "still running when the fuel ran out", \<open>Some (Inr s)\<close> the state at normal
  termination, \<open>Some (Inl e)\<close> a fatal error.
\<close>

fun vm_x2017_loop :: "config \<Rightarrow> inst_t list \<Rightarrow> nat \<Rightarrow> vm_state \<Rightarrow> vm_state result option" where
  "vm_x2017_loop cfg instructions 0 s = None"
| "vm_x2017_loop cfg instructions (Suc fuel) s =
    (case fetch_execute cfg instructions s of
       Inl e \<Rightarrow> Some (Inl e)
     | Inr (r, s1) \<Rightarrow>
         if r \<noteq> 0 then Some (Inr s1) else vm_x2017_loop cfg instructions fuel s1)"

section \<open>A configuration and states to run the machine on\<close>

text \<open>
  A configuration with eight function labels, the tables in \<^verbatim>\<open>ram[0..15]\<close>, the stack
  region from address 16 up to 255, and stack symbols counted downwards from the stack
  pointer. In \<open>example_state\<close> function 1 has frame size 1 (\<^verbatim>\<open>ram[8 + 1]\<close>) and entry
  address 0, the current frame has its stack pointer at 18, and its two-byte header holds
  the link 16 and the return address 4. In \<open>entry_state\<close> the current frame is the
  entry frame: its link byte \<^verbatim>\<open>ram[17]\<close> is 0.
\<close>

definition example_config :: config where
  "example_config = \<lparr>MAX_FUNCTIONS = 8, MAIN_FUNC = 0, STACK_START = 16, STACK_MAX = 255,
     STACK_LOC = (\<lambda>sp x. sp - x)\<rparr>"

definition example_state :: vm_state where
  "example_state = \<lparr>ram = (\<lambda>a. 0)(9 := 1, 18 := 30, 19 := 16, 20 := 4, 30 := 40),
     registers = (\<lambda>r. 0)(0 := 200, 1 := 100), stack_ptr = 18, prog_ctr = 3, stdout = []\<rparr>"

definition overflow_state :: vm_state where
  "overflow_state = example_state\<lparr>stack_ptr := 252\<rparr>"

definition entry_state :: vm_state where
  "entry_state = example_state\<lparr>stack_ptr := 16, prog_ctr := 4\<rparr>"

definition example_cal :: inst_t where
  "example_cal = \<lparr>opcode = CAL, arg1 = \<lparr>type = VAL, value = 1\<rparr>,
     arg2 = \<lparr>type = VAL, value = 0\<rparr>\<rparr>"

definition example_ret :: inst_t where
  "example_ret = \<lparr>opcode = RET, arg1 = \<lparr>type = VAL, value = 0\<rparr>,
     arg2 = \<lparr>type = VAL, value = 0\<rparr>\<rparr>"

text \<open>Function 1 is the single \<^verbatim>\<open>RET\<close> at index 0; the instruction at index 3 calls it.\<close>

definition example_program :: "inst_t list" where
  "example_program = [example_ret, example_ret, example_ret, example_cal, example_ret]"

text \<open>One instruction for each operand constraint, violating it.\<close>

definition bad_mov :: inst_t where
  "bad_mov = \<lparr>opcode = MOV, arg1 = \<lparr>type = VAL, value = 0\<rparr>, arg2 = \<lparr>type = REG, value = 1\<rparr>\<rparr>"

definition bad_cal :: inst_t where
  "bad_cal = \<lparr>opcode = CAL, arg1 = \<lparr>type = REG, value = 1\<rparr>, arg2 = \<lparr>type = VAL, value = 0\<rparr>\<rparr>"

definition bad_ref :: inst_t where
  "bad_ref = \<lparr>opcode = REF, arg1 = \<lparr>type = REG, value = 0\<rparr>, arg2 = \<lparr>type = REG, value = 1\<rparr>\<rparr>"

definition bad_add :: inst_t where
  "bad_add = \<lparr>opcode = ADD, arg1 = \<lparr>type = REG, value = 0\<rparr>, arg2 = \<lparr>type = STACK, value = 0\<rparr>\<rparr>"

definition bad_not :: inst_t where
  "bad_not = \<lparr>opcode = NOT, arg1 = \<lparr>type = PTR, value = 0\<rparr>, arg2 = \<lparr>type = VAL, value = 0\<rparr>\<rparr>"

definition bad_equ :: inst_t where
  "bad_equ = \<lparr>opcode = EQU, arg1 = \<lparr>type = VAL, value = 0\<rparr>, arg2 = \<lparr>type = VAL, value = 0\<rparr>\<rparr>"

text \<open>A wrapping addition of registers 0 and 1, and two \<^verbatim>\<open>REF\<close>s into a \<^verbatim>\<open>VAL\<close> operand.\<close>

definition example_add :: inst_t where
  "example_add = \<lparr>opcode = ADD, arg1 = \<lparr>type = REG, value = 0\<rparr>, arg2 = \<lparr>type = REG, value = 1\<rparr>\<rparr>"

definition ref_val_stack :: inst_t where
  "ref_val_stack = \<lparr>opcode = REF, arg1 = \<lparr>type = VAL, value = 5\<rparr>,
     arg2 = \<lparr>type = STACK, value = 0\<rparr>\<rparr>"

definition ref_val_ptr :: inst_t where
  "ref_val_ptr = \<lparr>opcode = REF, arg1 = \<lparr>type = VAL, value = 5\<rparr>,
     arg2 = \<lparr>type = PTR, value = 0\<rparr>\<rparr>"

text \<open>
  A program that meets every load requirement (an entry function, every function ending in
  \<^verbatim>\<open>RET\<close>) and whose callee overwrites the link byte of its own frame: the entry function
  is \<^verbatim>\<open>[CAL 1, RET]\<close> at index 0 with frame size 0, function 1 is
  \<^verbatim>\<open>[MOV(STACK 0, VAL 20), MOV(PTR 0, VAL 99), RET]\<close> at index 2 with frame size 1.
  \<open>clobber_tables\<close> holds the two tables as the layout leaves them, \<open>clobber_start\<close> is
  the state after the entry code, \<open>clobber_called\<close> the state after the \<^verbatim>\<open>CAL\<close>,
  \<open>clobber_body\<close> the state after the two \<^verbatim>\<open>MOV\<close>s, where the \<^verbatim>\<open>RET\<close> of function 1
  is fetched.
\<close>

definition mov_stack_20 :: inst_t where
  "mov_stack_20 = \<lparr>opcode = MOV, arg1 = \<lparr>type = STACK, value = 0\<rparr>,
     arg2 = \<lparr>type = VAL, value = 20\<rparr>\<rparr>"

definition mov_ptr_99 :: inst_t where
  "mov_ptr_99 = \<lparr>opcode = MOV, arg1 = \<lparr>type = PTR, value = 0\<rparr>,
     arg2 = \<lparr>type = VAL, value = 99\<rparr>\<rparr>"

definition clobber_program :: "inst_t list" where
  "clobber_program = [example_cal, example_ret, mov_stack_20, mov_ptr_99, example_ret]"

definition clobber_tables :: vm_state where
  "clobber_tables = \<lparr>ram = (\<lambda>a. 0)(1 := 2, 9 := 1), registers = (\<lambda>r. 0),
     stack_ptr = 0, prog_ctr = 0, stdout = []\<rparr>"

definition clobber_start :: vm_state where
  "clobber_start = projr (vm_x2017_entry example_config clobber_tables)"

definition clobber_called :: vm_state where
  "clobber_called = snd (projr (fetch_execute example_config clobber_program clobber_start))"

definition clobber_body :: vm_state where
  "clobber_body =
     snd (projr (fetch_execute example_config clobber_program
       (snd (projr (fetch_execute example_config clobber_program clobber_called)))))"

text \<open>
  A program whose entry frame is so large that the entry stack pointer wraps to 0, the
  value of the sentinel (\<^verbatim>\<open>vm_x2017\<close> does not check the entry frame against the
  capacity): function 1 is the \<^verbatim>\<open>RET\<close> at index 0, the entry function is
  \<^verbatim>\<open>[CAL 1, RET]\<close> at index 1 with frame size 240.
\<close>

definition sentinel_program :: "inst_t list" where
  "sentinel_program = [example_ret, example_cal, example_ret]"

definition sentinel_tables :: vm_state where
  "sentinel_tables = \<lparr>ram = (\<lambda>a. 0)(0 := 1, 8 := 240), registers = (\<lambda>r. 0),
     stack_ptr = 0, prog_ctr = 0, stdout = []\<rparr>"

definition sentinel_start :: vm_state where
  "sentinel_start = projr (vm_x2017_entry example_config sentinel_tables)"

definition sentinel_called :: vm_state where
  "sentinel_called = snd (projr (fetch_execute example_config sentinel_program sentinel_start))"

section \<open>The operand constraints as the specification lists them\<close>

text \<open>
  A second definition, from the specification's opcode table, to compare
  \<open>run_instruction\<close> with: when an instruction violates the operand constraint of its
  opcode (\<^verbatim>\<open>RET\<close> and \<^verbatim>\<open>PRINT\<close> have none). \<open>constraint_diagnostic\<close> lists, for
  each constrained opcode, the message that identifies its constraint: the text of the
  \<^verbatim>\<open>errx\<close> call in that case of \<^verbatim>\<open>run_instruction\<close>.
\<close>

definition violates_constraint :: "inst_t \<Rightarrow> bool" where
  "violates_constraint inst =
    (case opcode inst of
       MOV \<Rightarrow> type (arg1 inst) = VAL
     | CAL \<Rightarrow> type (arg1 inst) \<noteq> VAL
     | RET \<Rightarrow> False
     | REF \<Rightarrow> type (arg2 inst) \<noteq> STACK \<and> type (arg2 inst) \<noteq> PTR
     | ADD \<Rightarrow> type (arg1 inst) \<noteq> REG \<or> type (arg2 inst) \<noteq> REG
     | PRINT \<Rightarrow> False
     | NOT \<Rightarrow> type (arg1 inst) \<noteq> REG
     | EQU \<Rightarrow> type (arg1 inst) \<noteq> REG)"

definition constraint_diagnostic :: "opcode_t \<Rightarrow> string" where
  "constraint_diagnostic opc =
    (case opc of
       MOV \<Rightarrow> ''first argument to MOV must not be value typed.''
     | CAL \<Rightarrow> ''first argument to CAL must be value typed.''
     | RET \<Rightarrow> []
     | REF \<Rightarrow> ''second argument to REF must be stack or pointer typed.''
     | ADD \<Rightarrow> ''both arguments to ADD must be register typed.''
     | PRINT \<Rightarrow> []
     | NOT \<Rightarrow> ''first argument to NOT must be register typed.''
     | EQU \<Rightarrow> ''first argument to EQU must be register typed.'')"

section \<open>Basic facts\<close>

lemmas example_defs = example_config_def example_state_def
  example_cal_def example_ret_def example_program_def
  FRAME_SIZE_def INSTR_ADDR_def RAM_SIZE_def NUM_REGISTERS_def

lemma run_instruction_CAL_Inr:
  assumes "opcode inst = CAL" "run_instruction cfg inst s = Inr (r, s1)"
  shows "type (arg1 inst) = VAL \<and> r = 0 \<and> call_function cfg (value (arg1 inst)) s = Inr s1"
  using assms by (auto simp add: run_instruction_def split: if_splits sum.splits)

lemma call_function_Inr:
  assumes "call_function cfg label s = Inr s1"
  shows "stack_ptr s1 = stack_ptr s + 2 + ram s (word_of_nat (FRAME_SIZE cfg (unat label)))"
    and "ram s1 (stack_ptr s1 + 1) = stack_ptr s"
    and "ram s1 (stack_ptr s1 + 2) = prog_ctr s"
    and "FRAME_SIZE cfg (unat label) < RAM_SIZE"
    and "\<not> stack_ptr s > word_of_int (int (STACK_MAX cfg)
           - uint (ram s (word_of_nat (FRAME_SIZE cfg (unat label)))) - 4)"
  using assms by (auto simp add: call_function_def Let_def split: if_splits)

lemma run_instruction_RET:
  assumes "opcode inst = RET"
  shows "run_instruction cfg inst s =
    (if ram s (stack_ptr s + 1) = 0
     then Inr (1, s\<lparr>registers := (registers s)(4 := stack_ptr s + 1)\<rparr>)
     else Inr (0, s\<lparr>registers := (registers s)(4 := stack_ptr s + 2),
                    stack_ptr := ram s (stack_ptr s + 1),
                    prog_ctr := ram s (stack_ptr s + 2)\<rparr>))"
  using assms by (simp add: run_instruction_def Let_def add.commute)

text \<open>
  When the capacity bound \<^verbatim>\<open>STACK_MAX - frame_size - 4\<close> does not wrap and the overflow
  check passes, the new stack pointer \<^verbatim>\<open>STACK_PTR + 2 + frame_size\<close> does not wrap either.
\<close>

lemma no_wrap_bound:
  fixes sp fsz :: byte
  assumes m: "unat fsz + 4 \<le> m" "m < 256"
    and le: "\<not> sp > word_of_int (int m - uint fsz - 4)"
  shows "unat (sp + 2 + fsz) = unat sp + 2 + unat fsz"
proof -
  have e: "(word_of_int (int m - uint fsz - 4) :: byte) = word_of_nat m - fsz - 4"
    by simp
  have um: "unat (word_of_nat m :: byte) = m"
    using m by (simp add: unat_of_nat)
  have "fsz \<le> word_of_nat m"
    using m by (simp add: word_le_nat_alt um)
  then have u1: "unat (word_of_nat m - fsz) = m - unat fsz"
    by (simp add: unat_sub um)
  have "4 \<le> word_of_nat m - fsz"
    using m by (simp add: word_le_nat_alt u1)
  then have u2: "unat (word_of_nat m - fsz - 4) = m - unat fsz - 4"
    by (simp add: unat_sub u1)
  have "unat sp \<le> unat (word_of_nat m - fsz - 4)"
    using le unfolding e by (simp add: word_le_nat_alt not_less)
  then have b: "unat sp + unat fsz + 4 \<le> m"
    using m unfolding u2 by linarith
  have "unat (sp + 2) = unat sp + 2"
    using b m by (simp add: unat_word_ariths)
  moreover have "unat (sp + 2 + fsz) = (unat (sp + 2) + unat fsz) mod 256"
    by (simp add: unat_word_ariths)
  ultimately show ?thesis using b m by simp
qed

text \<open>
  The model runs: from \<open>example_state\<close> the example program takes four fetches (the call,
  the return of the callee, the return to the entry frame, the return from the entry
  frame) and ends normally with the stack pointer at 16; three fetches are not enough.
\<close>

lemma example_program_runs:
  "map_option (map_sum fst (\<lambda>s. (stack_ptr s, prog_ctr s, stdout s)))
     (vm_x2017_loop example_config example_program (Suc (Suc (Suc (Suc 0)))) example_state)
     = Some (Inr (16, 5, []))
   \<and> vm_x2017_loop example_config example_program (Suc (Suc (Suc 0))) example_state = None"
  by (simp add: fetch_execute_def run_instruction_def call_function_def Let_def example_defs)

section \<open>The stack pointer across a call\<close>

text \<open>
  C1, as stated: a \<^verbatim>\<open>CAL\<close> of label L lowers the stack pointer by 2 + frame size of L.
  It fails on the code: from stack pointer 18, calling function 1 (frame size 1) gives
  stack pointer 21, which is neither 18 - 3 nor below 18.
\<close>

theorem cal_stack_pointer_counterexample:
  "map_sum fst (stack_ptr \<circ> snd) (run_instruction example_config example_cal example_state) = Inr 21
   \<and> stack_ptr example_state = 18
   \<and> ram example_state (word_of_nat (FRAME_SIZE example_config 1)) = 1
   \<and> (21 :: byte) \<noteq> 18 - (2 + 1) \<and> \<not> (21 :: byte) < 18"
  by (simp add: run_instruction_def call_function_def Let_def example_defs)

text \<open>
  C1, amended: every executed \<^verbatim>\<open>CAL\<close> of label L raises the stack pointer: the new stack
  pointer is the old one plus 2 + frame size of L, in byte arithmetic; and when
  frame size + 4 \<open>\<le>\<close> \<^verbatim>\<open>STACK_MAX\<close> \<open><\<close> 256 the sum does not wrap, so the new frame sits
  at a higher address than the frame of its caller.
\<close>

theorem cal_increases_stack_pointer:
  assumes "opcode inst = CAL" and "run_instruction cfg inst s = Inr (r, s1)"
  shows "stack_ptr s1 = stack_ptr s + (2 + ram s (word_of_nat (FRAME_SIZE cfg (unat (value (arg1 inst))))))
    \<and> (unat (ram s (word_of_nat (FRAME_SIZE cfg (unat (value (arg1 inst)))))) + 4 \<le> STACK_MAX cfg
         \<and> STACK_MAX cfg < 256
         \<longrightarrow> unat (stack_ptr s1) = unat (stack_ptr s)
               + (2 + unat (ram s (word_of_nat (FRAME_SIZE cfg (unat (value (arg1 inst)))))))
             \<and> stack_ptr s < stack_ptr s1)"
proof -
  define fsz where "fsz = ram s (word_of_nat (FRAME_SIZE cfg (unat (value (arg1 inst)))))"
  from run_instruction_CAL_Inr [OF assms]
  have c: "call_function cfg (value (arg1 inst)) s = Inr s1" by simp
  note f = call_function_Inr [OF c, folded fsz_def]
  have sp: "stack_ptr s1 = stack_ptr s + (2 + fsz)"
    using f(1) by (simp add: add.assoc)
  have "unat (stack_ptr s1) = unat (stack_ptr s) + (2 + unat fsz) \<and> stack_ptr s < stack_ptr s1"
    if b: "unat fsz + 4 \<le> STACK_MAX cfg \<and> STACK_MAX cfg < 256"
  proof -
    have "unat (stack_ptr s + 2 + fsz) = unat (stack_ptr s) + 2 + unat fsz"
      using b f(5) by (intro no_wrap_bound [where m = "STACK_MAX cfg"]) simp_all
    then show ?thesis
      unfolding f(1) by (simp add: word_less_nat_alt)
  qed
  with sp show ?thesis unfolding fsz_def by blast
qed

theorem cal_increases_stack_pointer_witness:
  "opcode example_cal = CAL
   \<and> \<not> isl (run_instruction example_config example_cal example_state)
   \<and> unat (ram example_state (word_of_nat (FRAME_SIZE example_config (unat (value (arg1 example_cal)))))) + 4
       \<le> STACK_MAX example_config
   \<and> STACK_MAX example_config < 256
   \<and> stack_ptr (snd (projr (run_instruction example_config example_cal example_state))) = 18 + (2 + 1)
   \<and> stack_ptr example_state < stack_ptr (snd (projr (run_instruction example_config example_cal example_state)))"
proof -
  let ?R = "run_instruction example_config example_cal example_state"
  have o: "opcode example_cal = CAL" by (simp add: example_defs)
  have r: "?R = Inr (fst (projr ?R), snd (projr ?R))"
    by (simp add: run_instruction_def call_function_def Let_def example_defs)
  then have i: "\<not> isl ?R" by (metis sum.disc(2))
  have b: "unat (ram example_state (word_of_nat (FRAME_SIZE example_config (unat (value (arg1 example_cal)))))) + 4
       \<le> STACK_MAX example_config \<and> STACK_MAX example_config < 256"
    by (simp add: example_defs)
  from cal_increases_stack_pointer [OF o r] b o i show ?thesis
    by (simp add: example_defs)
qed

lemma fetch_execute_at:
  assumes "unat (prog_ctr s) < length instructions"
  shows "fetch_execute cfg instructions s =
    run_instruction cfg (instructions ! unat (prog_ctr s)) (s\<lparr>prog_ctr := prog_ctr s + 1\<rparr>)"
  using assms by (simp add: fetch_execute_def)

lemma vm_x2017_entry_Inr:
  assumes "vm_x2017_entry cfg b = Inr e"
  shows "ram e (stack_ptr e + 1) = 0"
proof -
  have w: "word_of_nat (unat x + 1) = x + 1" for x :: byte
    by simp
  show ?thesis
    using assms by (auto simp add: vm_x2017_entry_def Let_def w split: if_splits)
qed

section \<open>Returning\<close>

text \<open>
  C2: \<^verbatim>\<open>RET\<close> signals termination of the whole run (returns 1, which ends the loop of
  \<^verbatim>\<open>vm_x2017\<close>) if and only if the link byte at stack pointer + 1 is the sentinel 0,
  the value that the entry code of \<^verbatim>\<open>vm_x2017\<close> wrote into the header of the entry
  frame; otherwise it sets the stack pointer to the link byte and the program counter to
  the byte after it, returns 0, and the loop goes on from that state.
\<close>

theorem ret_terminates_iff_sentinel:
  assumes "opcode inst = RET"
  shows "((\<exists>s1. run_instruction cfg inst s = Inr (1, s1)) \<longleftrightarrow> ram s (stack_ptr s + 1) = 0)
    \<and> (ram s (stack_ptr s + 1) \<noteq> 0 \<longrightarrow>
         run_instruction cfg inst s =
           Inr (0, s\<lparr>registers := (registers s)(4 := stack_ptr s + 2),
                     stack_ptr := ram s (stack_ptr s + 1),
                     prog_ctr := ram s (stack_ptr s + 2)\<rparr>))
    \<and> (unat (prog_ctr s) < length instructions \<and> instructions ! unat (prog_ctr s) = inst \<longrightarrow>
         vm_x2017_loop cfg instructions (Suc fuel) s =
           (if ram s (stack_ptr s + 1) = 0
            then Some (Inr (s\<lparr>registers := (registers s)(4 := stack_ptr s + 1),
                              prog_ctr := prog_ctr s + 1\<rparr>))
            else vm_x2017_loop cfg instructions fuel
                   (s\<lparr>registers := (registers s)(4 := stack_ptr s + 2),
                      stack_ptr := ram s (stack_ptr s + 1),
                      prog_ctr := ram s (stack_ptr s + 2)\<rparr>)))
    \<and> (vm_x2017_entry cfg b = Inr e \<longrightarrow> ram e (stack_ptr e + 1) = 0)"
proof (intro conjI impI)
  show "(\<exists>s1. run_instruction cfg inst s = Inr (1, s1)) \<longleftrightarrow> ram s (stack_ptr s + 1) = 0"
    by (simp add: run_instruction_RET [OF assms])
  show "run_instruction cfg inst s =
           Inr (0, s\<lparr>registers := (registers s)(4 := stack_ptr s + 2),
                     stack_ptr := ram s (stack_ptr s + 1),
                     prog_ctr := ram s (stack_ptr s + 2)\<rparr>)"
    if "ram s (stack_ptr s + 1) \<noteq> 0"
    using that by (simp add: run_instruction_RET [OF assms])
  show "vm_x2017_loop cfg instructions (Suc fuel) s =
           (if ram s (stack_ptr s + 1) = 0
            then Some (Inr (s\<lparr>registers := (registers s)(4 := stack_ptr s + 1),
                              prog_ctr := prog_ctr s + 1\<rparr>))
            else vm_x2017_loop cfg instructions fuel
                   (s\<lparr>registers := (registers s)(4 := stack_ptr s + 2),
                      stack_ptr := ram s (stack_ptr s + 1),
                      prog_ctr := ram s (stack_ptr s + 2)\<rparr>))"
    if "unat (prog_ctr s) < length instructions \<and> instructions ! unat (prog_ctr s) = inst"
    using that assms by (simp add: fetch_execute_at run_instruction_RET)
  show "ram e (stack_ptr e + 1) = 0" if "vm_x2017_entry cfg b = Inr e"
    using that by (rule vm_x2017_entry_Inr)
qed

theorem ret_terminates_iff_sentinel_witness:
  "opcode example_ret = RET
   \<and> ram entry_state (stack_ptr entry_state + 1) = 0
   \<and> fst (projr (run_instruction example_config example_ret entry_state)) = 1
   \<and> unat (prog_ctr entry_state) < length example_program
   \<and> example_program ! unat (prog_ctr entry_state) = example_ret
   \<and> vm_x2017_loop example_config example_program (Suc 0) entry_state =
       Some (Inr (entry_state\<lparr>registers := (registers entry_state)(4 := 17), prog_ctr := 5\<rparr>))
   \<and> ram example_state (stack_ptr example_state + 1) \<noteq> 0
   \<and> run_instruction example_config example_ret example_state =
       Inr (0, example_state\<lparr>registers := (registers example_state)(4 := 20),
                 stack_ptr := 16, prog_ctr := 4\<rparr>)
   \<and> \<not> isl (vm_x2017_entry example_config example_state)
   \<and> ram (projr (vm_x2017_entry example_config example_state))
        (stack_ptr (projr (vm_x2017_entry example_config example_state)) + 1) = 0"
proof -
  have o: "opcode example_ret = RET" by (simp add: example_defs entry_state_def)
  have e: "vm_x2017_entry example_config example_state
             = Inr (projr (vm_x2017_entry example_config example_state))"
    by (simp add: vm_x2017_entry_def Let_def UINT8_MAX_def example_defs entry_state_def)
  then have i: "\<not> isl (vm_x2017_entry example_config example_state)"
    by (metis sum.disc(2))
  have p: "unat (prog_ctr entry_state) < length example_program
      \<and> example_program ! unat (prog_ctr entry_state) = example_ret"
    by (simp add: example_defs entry_state_def)
  have z: "ram entry_state (stack_ptr entry_state + 1) = 0"
    and n: "ram example_state (stack_ptr example_state + 1) \<noteq> 0"
    by (simp_all add: example_defs entry_state_def)
  note t = ret_terminates_iff_sentinel [OF o, where cfg = example_config and s = entry_state
      and instructions = example_program and fuel = 0 and b = example_state
      and e = "projr (vm_x2017_entry example_config example_state)"]
  note c = ret_terminates_iff_sentinel [OF o, where cfg = example_config and s = example_state
      and instructions = example_program and fuel = 0 and b = example_state
      and e = "projr (vm_x2017_entry example_config example_state)"]
  from t z have "\<exists>s1. run_instruction example_config example_ret entry_state = Inr (1, s1)"
    by blast
  then have r1: "fst (projr (run_instruction example_config example_ret entry_state)) = 1"
    by auto
  from t p z have l: "vm_x2017_loop example_config example_program (Suc 0) entry_state =
       Some (Inr (entry_state\<lparr>registers := (registers entry_state)(4 := stack_ptr entry_state + 1),
                    prog_ctr := prog_ctr entry_state + 1\<rparr>))"
    by simp
  have l': "vm_x2017_loop example_config example_program (Suc 0) entry_state =
       Some (Inr (entry_state\<lparr>registers := (registers entry_state)(4 := 17), prog_ctr := 5\<rparr>))"
    unfolding l by (simp add: example_defs entry_state_def)
  from c n have r0: "run_instruction example_config example_ret example_state =
       Inr (0, example_state\<lparr>registers := (registers example_state)(4 := stack_ptr example_state + 2),
                 stack_ptr := ram example_state (stack_ptr example_state + 1),
                 prog_ctr := ram example_state (stack_ptr example_state + 2)\<rparr>)"
    by blast
  have r0': "run_instruction example_config example_ret example_state =
       Inr (0, example_state\<lparr>registers := (registers example_state)(4 := 20),
                 stack_ptr := 16, prog_ctr := 4\<rparr>)"
    unfolding r0 by (simp add: example_defs entry_state_def)
  from t e have b: "ram (projr (vm_x2017_entry example_config example_state))
        (stack_ptr (projr (vm_x2017_entry example_config example_state)) + 1) = 0"
    by blast
  from o z r1 p l' n r0' i b show ?thesis by blast
qed

section \<open>The frame header\<close>

text \<open>
  C3: every executed \<^verbatim>\<open>CAL\<close> stores the two linkage bytes right above the new stack
  pointer: the stack pointer of the caller at new stack pointer + 1, then the program
  counter of the caller at new stack pointer + 2. \<^verbatim>\<open>RET\<close> reads them back from the same
  positions: the link byte at stack pointer + 1 (tested against the sentinel, then the new
  stack pointer) and the return address in the next byte.
\<close>

theorem linkage_bytes_above_stack_pointer:
  "(opcode cal = CAL \<and> run_instruction cfg cal s = Inr (r, s1) \<longrightarrow>
      ram s1 (stack_ptr s1 + 1) = stack_ptr s \<and> ram s1 (stack_ptr s1 + 2) = prog_ctr s)
   \<and> (opcode ret = RET \<longrightarrow>
        isl (run_instruction cfg ret t) = False
        \<and> (fst (projr (run_instruction cfg ret t)) = 1 \<longleftrightarrow> ram t (stack_ptr t + 1) = 0)
        \<and> (ram t (stack_ptr t + 1) \<noteq> 0 \<longrightarrow>
             stack_ptr (snd (projr (run_instruction cfg ret t))) = ram t (stack_ptr t + 1)
             \<and> prog_ctr (snd (projr (run_instruction cfg ret t))) = ram t (stack_ptr t + 2)))"
proof (intro conjI impI)
  assume c: "opcode cal = CAL \<and> run_instruction cfg cal s = Inr (r, s1)"
  then have "call_function cfg (value (arg1 cal)) s = Inr s1"
    using run_instruction_CAL_Inr by blast
  note f = call_function_Inr [OF this]
  show "ram s1 (stack_ptr s1 + 1) = stack_ptr s" by (rule f(2))
  show "ram s1 (stack_ptr s1 + 2) = prog_ctr s" by (rule f(3))
next
  assume o: "opcode ret = RET"
  show "isl (run_instruction cfg ret t) = False"
    by (simp add: run_instruction_RET [OF o])
  show "fst (projr (run_instruction cfg ret t)) = 1 \<longleftrightarrow> ram t (stack_ptr t + 1) = 0"
    by (simp add: run_instruction_RET [OF o])
  assume "ram t (stack_ptr t + 1) \<noteq> 0"
  then show "stack_ptr (snd (projr (run_instruction cfg ret t))) = ram t (stack_ptr t + 1)"
    and "prog_ctr (snd (projr (run_instruction cfg ret t))) = ram t (stack_ptr t + 2)"
    by (simp_all add: run_instruction_RET [OF o])
qed

theorem linkage_bytes_above_stack_pointer_witness:
  "opcode example_cal = CAL
   \<and> \<not> isl (run_instruction example_config example_cal example_state)
   \<and> stack_ptr (snd (projr (run_instruction example_config example_cal example_state))) = 21
   \<and> ram (snd (projr (run_instruction example_config example_cal example_state))) 22 = 18
   \<and> ram (snd (projr (run_instruction example_config example_cal example_state))) 23 = 3
   \<and> opcode example_ret = RET
   \<and> ram example_state (stack_ptr example_state + 1) \<noteq> 0
   \<and> stack_ptr (snd (projr (run_instruction example_config example_ret example_state))) = 16
   \<and> prog_ctr (snd (projr (run_instruction example_config example_ret example_state))) = 4"
proof -
  let ?R = "run_instruction example_config example_cal example_state"
  have oc: "opcode example_cal = CAL" and orr: "opcode example_ret = RET"
    by (simp_all add: example_defs)
  have r: "?R = Inr (fst (projr ?R), snd (projr ?R))"
    by (simp add: run_instruction_def call_function_def Let_def example_defs)
  then have i: "\<not> isl ?R" by (metis sum.disc(2))
  have sp: "stack_ptr (snd (projr ?R)) = 21"
    by (simp add: run_instruction_def call_function_def Let_def example_defs)
  have n: "ram example_state (stack_ptr example_state + 1) \<noteq> 0"
    by (simp add: example_defs)
  note l = linkage_bytes_above_stack_pointer [where cal = example_cal and cfg = example_config
      and s = example_state and r = "fst (projr ?R)" and ?s1.0 = "snd (projr ?R)"
      and ret = example_ret and t = example_state]
  from l [THEN conjunct1, THEN mp, OF conjI [OF oc r]] sp
  have "ram (snd (projr ?R)) 22 = 18 \<and> ram (snd (projr ?R)) 23 = 3"
    by (simp add: example_defs)
  moreover from l [THEN conjunct2, THEN mp, OF orr] n
  have "stack_ptr (snd (projr (run_instruction example_config example_ret example_state))) = 16
      \<and> prog_ctr (snd (projr (run_instruction example_config example_ret example_state))) = 4"
    by (simp add: example_defs)
  ultimately show ?thesis using oc orr i sp n by blast
qed

section \<open>Call and return together\<close>

text \<open>
  C4, as stated: in every well-formed program, after a \<^verbatim>\<open>CAL\<close> and its matching
  \<^verbatim>\<open>RET\<close> the stack pointer is what it was right before the \<^verbatim>\<open>CAL\<close>. It fails on the
  code, where nothing protects a frame header. In \<open>clobber_program\<close> the stack pointer is
  16 before the \<^verbatim>\<open>CAL\<close> and 19 after it, the callee writes 99 over the link byte of its
  frame, and the \<^verbatim>\<open>RET\<close> that pops that frame leaves the stack pointer at 99. In
  \<open>sentinel_program\<close> the stack pointer of the caller is 0, so the link byte that the
  \<^verbatim>\<open>CAL\<close> writes is the sentinel, and the \<^verbatim>\<open>RET\<close> of the callee ends the run with the
  stack pointer at 2.
\<close>

theorem call_return_counterexample:
  "\<not> isl (vm_x2017_entry example_config clobber_tables)
   \<and> stack_ptr clobber_start = 16
   \<and> opcode (clobber_program ! unat (prog_ctr clobber_start)) = CAL
   \<and> map_sum fst fst (fetch_execute example_config clobber_program clobber_start) = Inr 0
   \<and> stack_ptr clobber_called = 19
   \<and> ram clobber_called (stack_ptr clobber_called + 1) = 16
   \<and> opcode (clobber_program ! unat (prog_ctr clobber_body)) = RET
   \<and> stack_ptr clobber_body = stack_ptr clobber_called
   \<and> map_sum fst (stack_ptr \<circ> snd) (fetch_execute example_config clobber_program clobber_body)
       = Inr 99
   \<and> \<not> isl (vm_x2017_entry example_config sentinel_tables)
   \<and> stack_ptr sentinel_start = 0
   \<and> opcode (sentinel_program ! unat (prog_ctr sentinel_start)) = CAL
   \<and> map_sum fst fst (fetch_execute example_config sentinel_program sentinel_start) = Inr 0
   \<and> opcode (sentinel_program ! unat (prog_ctr sentinel_called)) = RET
   \<and> map_sum fst fst (fetch_execute example_config sentinel_program sentinel_called) = Inr 1
   \<and> map_sum fst (stack_ptr \<circ> snd) (fetch_execute example_config sentinel_program sentinel_called)
       = Inr 2"
proof -
  note d = mov_stack_20_def mov_ptr_99_def clobber_program_def clobber_tables_def
    sentinel_program_def sentinel_tables_def
    vm_x2017_entry_def fetch_execute_def run_instruction_def call_function_def arg_value_def
    mov_def Let_def UINT8_MAX_def example_defs
  have c0: "\<not> isl (vm_x2017_entry example_config clobber_tables)"
      "stack_ptr clobber_start = 16"
      "opcode (clobber_program ! unat (prog_ctr clobber_start)) = CAL"
      "map_sum fst fst (fetch_execute example_config clobber_program clobber_start) = Inr 0"
    by (simp_all add: clobber_start_def d)
  have c1: "stack_ptr clobber_called = 19"
      "ram clobber_called (stack_ptr clobber_called + 1) = 16"
    by (simp_all add: clobber_called_def clobber_start_def d)
  have c2: "opcode (clobber_program ! unat (prog_ctr clobber_body)) = RET"
      "stack_ptr clobber_body = stack_ptr clobber_called"
      "map_sum fst (stack_ptr \<circ> snd) (fetch_execute example_config clobber_program clobber_body)
         = Inr 99"
    by (simp_all add: clobber_body_def clobber_called_def clobber_start_def d)
  have s0: "\<not> isl (vm_x2017_entry example_config sentinel_tables)"
      "stack_ptr sentinel_start = 0"
      "opcode (sentinel_program ! unat (prog_ctr sentinel_start)) = CAL"
      "map_sum fst fst (fetch_execute example_config sentinel_program sentinel_start) = Inr 0"
    by (simp_all add: sentinel_start_def d)
  have s1: "opcode (sentinel_program ! unat (prog_ctr sentinel_called)) = RET"
      "map_sum fst fst (fetch_execute example_config sentinel_program sentinel_called) = Inr 1"
      "map_sum fst (stack_ptr \<circ> snd) (fetch_execute example_config sentinel_program sentinel_called)
         = Inr 2"
    by (simp_all add: sentinel_called_def sentinel_start_def d)
  from c0 c1 c2 s0 s1 show ?thesis by blast
qed

text \<open>
  C4, amended: after a \<^verbatim>\<open>CAL\<close> and its matching \<^verbatim>\<open>RET\<close> (the \<^verbatim>\<open>RET\<close> run when the
  current frame is the one that \<^verbatim>\<open>CAL\<close> pushed) the stack pointer is what it was right
  before the \<^verbatim>\<open>CAL\<close>, provided the link byte of that frame is still as the \<^verbatim>\<open>CAL\<close>
  wrote it and the stack pointer of the caller is not 0, the sentinel that marks the entry
  frame. The \<^verbatim>\<open>CAL\<close> runs in state \<open>s\<close> and pushes a frame, giving \<open>s1\<close>; the matching
  \<^verbatim>\<open>RET\<close> runs in a later state \<open>t\<close> with the stack pointer of \<open>s1\<close>.
\<close>

theorem call_return_balance:
  assumes "opcode cal = CAL" and "run_instruction cfg cal s = Inr (r, s1)"
    and "stack_ptr t = stack_ptr s1"
    and "ram t (stack_ptr s1 + 1) = ram s1 (stack_ptr s1 + 1)"
    and "stack_ptr s \<noteq> 0"
    and "opcode ret = RET"
  shows "\<exists>t1. run_instruction cfg ret t = Inr (0, t1) \<and> stack_ptr t1 = stack_ptr s"
proof -
  from assms(1,2) have "call_function cfg (value (arg1 cal)) s = Inr s1"
    using run_instruction_CAL_Inr by blast
  from call_function_Inr(2) [OF this] assms(3,4)
  have l: "ram t (stack_ptr t + 1) = stack_ptr s" by simp
  with assms(5) show ?thesis
    by (simp add: run_instruction_RET [OF assms(6)])
qed

theorem call_return_balance_witness:
  "opcode example_cal = CAL
   \<and> \<not> isl (run_instruction example_config example_cal example_state)
   \<and> stack_ptr example_state \<noteq> 0
   \<and> opcode example_ret = RET
   \<and> (\<exists>t1. run_instruction example_config example_ret
          ((snd (projr (run_instruction example_config example_cal example_state)))
             \<lparr>registers := (\<lambda>r. 9), stdout := [5]\<rparr>) = Inr (0, t1)
        \<and> stack_ptr t1 = 18)"
proof -
  let ?R = "run_instruction example_config example_cal example_state"
  let ?t = "(snd (projr ?R))\<lparr>registers := (\<lambda>r. 9), stdout := [5]\<rparr>"
  have oc: "opcode example_cal = CAL" and orr: "opcode example_ret = RET"
    and z: "stack_ptr example_state \<noteq> 0"
    by (simp_all add: example_defs)
  have r: "?R = Inr (fst (projr ?R), snd (projr ?R))"
    by (simp add: run_instruction_def call_function_def Let_def example_defs)
  then have i: "\<not> isl ?R" by (metis sum.disc(2))
  have "\<exists>t1. run_instruction example_config example_ret ?t = Inr (0, t1)
      \<and> stack_ptr t1 = stack_ptr example_state"
    using oc r _ _ z orr by (rule call_return_balance) simp_all
  then show ?thesis using oc orr z i by (simp add: example_defs)
qed

section \<open>The saved return address\<close>



section \<open>Facts about the overflow check\<close>

lemma vm_x2017_loop_abort:
  assumes "fetch_execute cfg instructions s = Inl e"
  shows "vm_x2017_loop cfg instructions (Suc fuel) s = Some (Inl e)"
  using assms by simp

lemma capacity_bound_no_wrap:
  fixes fsz :: byte
  assumes "unat fsz + 4 \<le> m" "m < 256"
  shows "unat (word_of_int (int m - uint fsz - 4) :: byte) = m - unat fsz - 4"
proof -
  have e: "(word_of_int (int m - uint fsz - 4) :: byte) = word_of_nat m - fsz - 4"
    by simp
  have um: "unat (word_of_nat m :: byte) = m"
    using assms by (simp add: unat_of_nat)
  have "fsz \<le> word_of_nat m"
    using assms by (simp add: word_le_nat_alt um)
  then have u1: "unat (word_of_nat m - fsz) = m - unat fsz"
    by (simp add: unat_sub um)
  have "4 \<le> word_of_nat m - fsz"
    using assms by (simp add: word_le_nat_alt u1)
  then show ?thesis
    unfolding e by (simp add: unat_sub u1)
qed

lemma overflow_check_is_capacity_test:
  fixes sp fsz :: byte
  assumes "unat fsz + 4 \<le> m" "m < 256"
  shows "sp > word_of_int (int m - uint fsz - 4) \<longleftrightarrow> m < unat sp + unat fsz + 4"
proof -
  have "sp > word_of_int (int m - uint fsz - 4) \<longleftrightarrow> m - unat fsz - 4 < unat sp"
    unfolding word_less_nat_alt capacity_bound_no_wrap [OF assms] ..
  also have "\<dots> \<longleftrightarrow> m < unat sp + unat fsz + 4"
    using assms by linarith
  finally show ?thesis .
qed

lemma capacity_bound_word:
  fixes fsz :: byte
  assumes "unat fsz + 4 \<le> m" "m < 256"
  shows "(word_of_int (int m - uint fsz - 4) :: byte) = word_of_nat (m - unat fsz - 4)"
proof -
  define b :: byte where "b = word_of_int (int m - uint fsz - 4)"
  have "b = word_of_nat (unat b)" by simp
  also have "unat b = m - unat fsz - 4"
    unfolding b_def by (rule capacity_bound_no_wrap [OF assms])
  finally show ?thesis unfolding b_def .
qed

text \<open>
  What \<^verbatim>\<open>call_function\<close> does when its comparison finds the stack pointer above the
  byte in \<^verbatim>\<open>registers[4]\<close>, at \<open>run_instruction\<close> and at the loop.
\<close>

lemma overflow_check_aborts:
  assumes "opcode inst = CAL" and "type (arg1 inst) = VAL"
    and "FRAME_SIZE cfg (unat (value (arg1 inst))) < RAM_SIZE"
    and "stack_ptr s > word_of_int (int (STACK_MAX cfg)
           - uint (ram s (word_of_nat (FRAME_SIZE cfg (unat (value (arg1 inst)))))) - 4)"
  shows "run_instruction cfg inst s =
      Inl (Errx ''Stack overflow detected when trying to call function %d'' [value (arg1 inst)],
           s\<lparr>registers := (registers s)(4 := word_of_int (int (STACK_MAX cfg)
                - uint (ram s (word_of_nat (FRAME_SIZE cfg (unat (value (arg1 inst)))))) - 4))\<rparr>)
    \<and> (unat (prog_ctr s) < length instructions \<and> instructions ! unat (prog_ctr s) = inst \<longrightarrow>
         vm_x2017_loop cfg instructions (Suc fuel) s =
           Some (Inl (Errx ''Stack overflow detected when trying to call function %d''
                        [value (arg1 inst)],
             s\<lparr>registers := (registers s)(4 := word_of_int (int (STACK_MAX cfg)
                  - uint (ram s (word_of_nat (FRAME_SIZE cfg (unat (value (arg1 inst)))))) - 4)),
               prog_ctr := prog_ctr s + 1\<rparr>)))"
proof -
  have c: "call_function cfg (value (arg1 inst)) u =
      Inl (Errx ''Stack overflow detected when trying to call function %d'' [value (arg1 inst)],
           u\<lparr>registers := (registers u)(4 := word_of_int (int (STACK_MAX cfg)
                - uint (ram u (word_of_nat (FRAME_SIZE cfg (unat (value (arg1 inst)))))) - 4))\<rparr>)"
    if "ram u = ram s" "stack_ptr u = stack_ptr s" for u
    using that assms(3,4) by (simp add: call_function_def Let_def)
  have r: "run_instruction cfg inst u =
      Inl (Errx ''Stack overflow detected when trying to call function %d'' [value (arg1 inst)],
           u\<lparr>registers := (registers u)(4 := word_of_int (int (STACK_MAX cfg)
                - uint (ram u (word_of_nat (FRAME_SIZE cfg (unat (value (arg1 inst)))))) - 4))\<rparr>)"
    if "ram u = ram s" "stack_ptr u = stack_ptr s" for u
    using assms(1,2) c [OF that] by (simp add: run_instruction_def)
  have "vm_x2017_loop cfg instructions (Suc fuel) s =
           Some (Inl (Errx ''Stack overflow detected when trying to call function %d''
                        [value (arg1 inst)],
             s\<lparr>registers := (registers s)(4 := word_of_int (int (STACK_MAX cfg)
                  - uint (ram s (word_of_nat (FRAME_SIZE cfg (unat (value (arg1 inst)))))) - 4)),
               prog_ctr := prog_ctr s + 1\<rparr>))"
    if "unat (prog_ctr s) < length instructions \<and> instructions ! unat (prog_ctr s) = inst"
  proof -
    have "fetch_execute cfg instructions s = run_instruction cfg inst (s\<lparr>prog_ctr := prog_ctr s + 1\<rparr>)"
      using that by (simp add: fetch_execute_at)
    also have "\<dots> = Inl (Errx ''Stack overflow detected when trying to call function %d''
                        [value (arg1 inst)],
             s\<lparr>registers := (registers s)(4 := word_of_int (int (STACK_MAX cfg)
                  - uint (ram s (word_of_nat (FRAME_SIZE cfg (unat (value (arg1 inst)))))) - 4)),
               prog_ctr := prog_ctr s + 1\<rparr>)"
      by (subst r) simp_all
    finally show ?thesis by (rule vm_x2017_loop_abort)
  qed
  with r [of s] show ?thesis by simp
qed


section \<open>Stack overflow\<close>

text \<open>
  C5, as stated: when a \<^verbatim>\<open>CAL\<close> would place the new frame below the reserved stack
  capacity floor, the run aborts with the stack-overflow error before any register or
  memory mutation from that call. It fails on the code in two ways. \<^verbatim>\<open>call_function\<close>
  stores the capacity bound in \<^verbatim>\<open>registers[4]\<close> before it compares, so at the abort
  register 4 holds 250 where it held 0. And the frame is not placed downwards: from stack
  pointer 18 the frame of function 1 would start, by stack pointer - (2 + frame size), at
  15, below the stack region that starts at 16, yet the \<^verbatim>\<open>CAL\<close> runs without error.
\<close>

theorem stack_overflow_counterexample:
  "isl (run_instruction example_config example_cal overflow_state)
   \<and> fst (projl (run_instruction example_config example_cal overflow_state))
       = Errx ''Stack overflow detected when trying to call function %d'' [1]
   \<and> registers (snd (projl (run_instruction example_config example_cal overflow_state))) 4 = 250
   \<and> registers overflow_state 4 = 0
   \<and> stack_ptr example_state - (2 + ram example_state (word_of_nat (FRAME_SIZE example_config 1)))
       = 15
   \<and> unat (15 :: byte) < STACK_START example_config
   \<and> \<not> isl (run_instruction example_config example_cal example_state)"
  by (simp add: run_instruction_def call_function_def Let_def example_defs overflow_state_def)

text \<open>
  C5, amended: when a \<^verbatim>\<open>CAL\<close> would place the new frame beyond the reserved stack
  capacity (the stack grows upward: stack pointer + frame size + 4, the address of the last
  header byte of the new frame, would exceed \<^verbatim>\<open>STACK_MAX\<close>, where
  frame size + 4 \<open>\<le>\<close> \<^verbatim>\<open>STACK_MAX\<close> \<open><\<close> 256), the run aborts with the fatal
  stack-overflow error that reports the label, before any memory mutation and before any
  register mutation other than the write of the bound \<^verbatim>\<open>STACK_MAX\<close> - frame size - 4 to
  scratch register 4: at the abort the RAM, the stack pointer, the program counter, the
  output and every other register are as they were when the \<^verbatim>\<open>CAL\<close> was dispatched (no
  partial frame).
\<close>

theorem stack_overflow_aborts:
  assumes "opcode inst = CAL" and "type (arg1 inst) = VAL"
    and "FRAME_SIZE cfg (unat (value (arg1 inst))) < RAM_SIZE"
    and "unat (ram s (word_of_nat (FRAME_SIZE cfg (unat (value (arg1 inst)))))) + 4 \<le> STACK_MAX cfg"
    and "STACK_MAX cfg < 256"
    and "STACK_MAX cfg < unat (stack_ptr s)
           + unat (ram s (word_of_nat (FRAME_SIZE cfg (unat (value (arg1 inst)))))) + 4"
  shows "run_instruction cfg inst s =
      Inl (Errx ''Stack overflow detected when trying to call function %d'' [value (arg1 inst)],
           s\<lparr>registers := (registers s)(4 := word_of_nat (STACK_MAX cfg
                - unat (ram s (word_of_nat (FRAME_SIZE cfg (unat (value (arg1 inst)))))) - 4))\<rparr>)
    \<and> (unat (prog_ctr s) < length instructions \<and> instructions ! unat (prog_ctr s) = inst \<longrightarrow>
         vm_x2017_loop cfg instructions (Suc fuel) s =
           Some (Inl (Errx ''Stack overflow detected when trying to call function %d''
                        [value (arg1 inst)],
             s\<lparr>registers := (registers s)(4 := word_of_nat (STACK_MAX cfg
                  - unat (ram s (word_of_nat (FRAME_SIZE cfg (unat (value (arg1 inst)))))) - 4)),
               prog_ctr := prog_ctr s + 1\<rparr>)))"
proof -
  define fsz where "fsz = ram s (word_of_nat (FRAME_SIZE cfg (unat (value (arg1 inst)))))"
  have n: "unat fsz + 4 \<le> STACK_MAX cfg" "STACK_MAX cfg < 256"
    using assms(4,5) by (simp_all add: fsz_def)
  have "STACK_MAX cfg < unat (stack_ptr s) + unat fsz + 4"
    using assms(6) by (simp add: fsz_def)
  then have "stack_ptr s > word_of_int (int (STACK_MAX cfg) - uint fsz - 4)"
    by (simp only: overflow_check_is_capacity_test [OF n])
  then have c: "stack_ptr s > word_of_int (int (STACK_MAX cfg)
           - uint (ram s (word_of_nat (FRAME_SIZE cfg (unat (value (arg1 inst)))))) - 4)"
    unfolding fsz_def .
  have b: "(word_of_int (int (STACK_MAX cfg)
           - uint (ram s (word_of_nat (FRAME_SIZE cfg (unat (value (arg1 inst)))))) - 4) :: byte)
      = word_of_nat (STACK_MAX cfg
           - unat (ram s (word_of_nat (FRAME_SIZE cfg (unat (value (arg1 inst)))))) - 4)"
    using capacity_bound_word [OF n] unfolding fsz_def .
  show ?thesis
    using overflow_check_aborts [OF assms(1-3) c, of instructions fuel] unfolding b .
qed

theorem stack_overflow_aborts_witness:
  "opcode example_cal = CAL \<and> type (arg1 example_cal) = VAL
   \<and> FRAME_SIZE example_config (unat (value (arg1 example_cal))) < RAM_SIZE
   \<and> unat (ram overflow_state (word_of_nat (FRAME_SIZE example_config
         (unat (value (arg1 example_cal)))))) + 4 \<le> STACK_MAX example_config
   \<and> STACK_MAX example_config < 256
   \<and> STACK_MAX example_config < unat (stack_ptr overflow_state)
        + unat (ram overflow_state (word_of_nat (FRAME_SIZE example_config
            (unat (value (arg1 example_cal)))))) + 4
   \<and> run_instruction example_config example_cal overflow_state =
       Inl (Errx ''Stack overflow detected when trying to call function %d'' [1],
            overflow_state\<lparr>registers := (registers overflow_state)(4 := 250)\<rparr>)
   \<and> unat (prog_ctr overflow_state) < length example_program
   \<and> example_program ! unat (prog_ctr overflow_state) = example_cal
   \<and> vm_x2017_loop example_config example_program (Suc 0) overflow_state =
       Some (Inl (Errx ''Stack overflow detected when trying to call function %d'' [1],
            overflow_state\<lparr>registers := (registers overflow_state)(4 := 250), prog_ctr := 4\<rparr>))"
proof -
  have h: "opcode example_cal = CAL" "type (arg1 example_cal) = VAL"
      "FRAME_SIZE example_config (unat (value (arg1 example_cal))) < RAM_SIZE"
      "unat (ram overflow_state (word_of_nat (FRAME_SIZE example_config
         (unat (value (arg1 example_cal)))))) + 4 \<le> STACK_MAX example_config"
      "STACK_MAX example_config < 256"
      "STACK_MAX example_config < unat (stack_ptr overflow_state)
        + unat (ram overflow_state (word_of_nat (FRAME_SIZE example_config
            (unat (value (arg1 example_cal)))))) + 4"
    and p: "unat (prog_ctr overflow_state) < length example_program
      \<and> example_program ! unat (prog_ctr overflow_state) = example_cal"
    by (simp_all add: example_defs overflow_state_def)
  have v: "value (arg1 example_cal) = 1"
    and b: "(word_of_nat (STACK_MAX example_config
        - unat (ram overflow_state (word_of_nat (FRAME_SIZE example_config
            (unat (1 :: byte))))) - 4) :: byte) = 250"
    and c: "prog_ctr overflow_state + 1 = 4"
    by (simp_all add: example_defs overflow_state_def)
  note w = stack_overflow_aborts [OF h, where instructions = example_program and fuel = 0]
  from w have "run_instruction example_config example_cal overflow_state =
       Inl (Errx ''Stack overflow detected when trying to call function %d''
              [value (arg1 example_cal)],
            overflow_state\<lparr>registers := (registers overflow_state)(4 :=
              word_of_nat (STACK_MAX example_config
                - unat (ram overflow_state (word_of_nat (FRAME_SIZE example_config
                    (unat (value (arg1 example_cal)))))) - 4))\<rparr>)"
    by (rule conjunct1)
  then have r: "run_instruction example_config example_cal overflow_state =
       Inl (Errx ''Stack overflow detected when trying to call function %d'' [1],
            overflow_state\<lparr>registers := (registers overflow_state)(4 := 250)\<rparr>)"
    by (simp only: v b)
  from w p have "vm_x2017_loop example_config example_program (Suc 0) overflow_state =
       Some (Inl (Errx ''Stack overflow detected when trying to call function %d''
              [value (arg1 example_cal)],
            overflow_state\<lparr>registers := (registers overflow_state)(4 :=
              word_of_nat (STACK_MAX example_config
                - unat (ram overflow_state (word_of_nat (FRAME_SIZE example_config
                    (unat (value (arg1 example_cal)))))) - 4)),
              prog_ctr := prog_ctr overflow_state + 1\<rparr>))"
    by blast
  then have l: "vm_x2017_loop example_config example_program (Suc 0) overflow_state =
       Some (Inl (Errx ''Stack overflow detected when trying to call function %d'' [1],
            overflow_state\<lparr>registers := (registers overflow_state)(4 := 250), prog_ctr := 4\<rparr>))"
    by (simp only: v b c)
  from r l p h show ?thesis by blast
qed

section \<open>Operand constraints\<close>

text \<open>
  C6: an instruction whose operand modes violate the constraint of its opcode
  (\<^verbatim>\<open>MOV\<close> with a \<^verbatim>\<open>VAL\<close> first argument, \<^verbatim>\<open>CAL\<close> with a first argument that is not
  \<^verbatim>\<open>VAL\<close>, \<^verbatim>\<open>REF\<close> with a second argument that is neither \<^verbatim>\<open>STACK\<close> nor \<^verbatim>\<open>PTR\<close>,
  \<^verbatim>\<open>ADD\<close> with an argument that is not \<^verbatim>\<open>REG\<close>, \<^verbatim>\<open>NOT\<close> or \<^verbatim>\<open>EQU\<close> with a first
  argument that is not \<^verbatim>\<open>REG\<close>) aborts at once with the diagnostic of that constraint:
  \<open>run_instruction\<close> ends in \<^verbatim>\<open>errx\<close> with the state untouched, and the loop of
  \<^verbatim>\<open>vm_x2017\<close> that fetched it ends with that error, whatever the fuel.
\<close>

theorem operand_violation_aborts:
  assumes "violates_constraint inst"
  shows "run_instruction cfg inst s = Inl (Errx (constraint_diagnostic (opcode inst)) [], s)
    \<and> (unat (prog_ctr s) < length instructions \<and> instructions ! unat (prog_ctr s) = inst \<longrightarrow>
         vm_x2017_loop cfg instructions (Suc fuel) s =
           Some (Inl (Errx (constraint_diagnostic (opcode inst)) [],
                      s\<lparr>prog_ctr := prog_ctr s + 1\<rparr>)))"
proof -
  have r: "run_instruction cfg inst u = Inl (Errx (constraint_diagnostic (opcode inst)) [], u)" for u
    using assms
    by (cases "opcode inst")
       (simp_all add: violates_constraint_def constraint_diagnostic_def run_instruction_def)
  have "vm_x2017_loop cfg instructions (Suc fuel) s =
           Some (Inl (Errx (constraint_diagnostic (opcode inst)) [],
                      s\<lparr>prog_ctr := prog_ctr s + 1\<rparr>))"
    if "unat (prog_ctr s) < length instructions \<and> instructions ! unat (prog_ctr s) = inst"
    using that by (simp add: fetch_execute_def r)
  with r show ?thesis by blast
qed

theorem operand_violation_aborts_witness:
  "violates_constraint bad_mov
   \<and> run_instruction example_config bad_mov example_state
       = Inl (Errx ''first argument to MOV must not be value typed.'' [], example_state)
   \<and> violates_constraint bad_cal
   \<and> run_instruction example_config bad_cal example_state
       = Inl (Errx ''first argument to CAL must be value typed.'' [], example_state)
   \<and> violates_constraint bad_ref
   \<and> run_instruction example_config bad_ref example_state
       = Inl (Errx ''second argument to REF must be stack or pointer typed.'' [], example_state)
   \<and> violates_constraint bad_add
   \<and> run_instruction example_config bad_add example_state
       = Inl (Errx ''both arguments to ADD must be register typed.'' [], example_state)
   \<and> violates_constraint bad_not
   \<and> run_instruction example_config bad_not example_state
       = Inl (Errx ''first argument to NOT must be register typed.'' [], example_state)
   \<and> violates_constraint bad_equ
   \<and> run_instruction example_config bad_equ example_state
       = Inl (Errx ''first argument to EQU must be register typed.'' [], example_state)
   \<and> unat (prog_ctr example_state) < length [bad_mov, bad_mov, bad_mov, bad_add]
   \<and> [bad_mov, bad_mov, bad_mov, bad_add] ! unat (prog_ctr example_state) = bad_add
   \<and> vm_x2017_loop example_config [bad_mov, bad_mov, bad_mov, bad_add] (Suc 7) example_state
       = Some (Inl (Errx ''both arguments to ADD must be register typed.'' [],
                    example_state\<lparr>prog_ctr := 4\<rparr>))"
proof -
  have v: "violates_constraint bad_mov" "violates_constraint bad_cal" "violates_constraint bad_ref"
      "violates_constraint bad_add" "violates_constraint bad_not" "violates_constraint bad_equ"
    by (simp_all add: violates_constraint_def bad_mov_def bad_cal_def bad_ref_def bad_add_def
        bad_not_def bad_equ_def)
  have d: "constraint_diagnostic (opcode bad_mov) = ''first argument to MOV must not be value typed.''"
      "constraint_diagnostic (opcode bad_cal) = ''first argument to CAL must be value typed.''"
      "constraint_diagnostic (opcode bad_ref) = ''second argument to REF must be stack or pointer typed.''"
      "constraint_diagnostic (opcode bad_add) = ''both arguments to ADD must be register typed.''"
      "constraint_diagnostic (opcode bad_not) = ''first argument to NOT must be register typed.''"
      "constraint_diagnostic (opcode bad_equ) = ''first argument to EQU must be register typed.''"
    by (simp_all add: constraint_diagnostic_def bad_mov_def bad_cal_def bad_ref_def bad_add_def
        bad_not_def bad_equ_def)
  have p: "unat (prog_ctr example_state) < length [bad_mov, bad_mov, bad_mov, bad_add]
      \<and> [bad_mov, bad_mov, bad_mov, bad_add] ! unat (prog_ctr example_state) = bad_add"
    and c: "prog_ctr example_state + 1 = 4"
    by (simp_all add: example_state_def)
  note w = v [THEN operand_violation_aborts, where cfg = example_config and s = example_state
      and instructions = "[bad_mov, bad_mov, bad_mov, bad_add]" and fuel = 7, unfolded d c]
  from w v p show ?thesis by blast
qed

section \<open>Reading an operand\<close>

text \<open>
  C7: what \<^verbatim>\<open>arg_value\<close> returns. For a \<^verbatim>\<open>VAL\<close> operand the literal byte; for a
  \<^verbatim>\<open>REG\<close> operand (naming one of the \<^verbatim>\<open>NUM_REGISTERS\<close> registers) the current value of
  that register; for a \<^verbatim>\<open>STACK\<close> operand the RAM byte at the address that \<^verbatim>\<open>STACK_LOC\<close>
  gives for the operand's offset and the current stack pointer; for a \<^verbatim>\<open>PTR\<close> operand the
  RAM byte at the address held in that RAM byte: one more level of indirection. The state
  changes in the scratch registers 4 and 5 only.
\<close>

theorem arg_value_reads_operand:
  "(type arg = VAL \<longrightarrow> arg_value cfg arg s = Inr (value arg, s))
   \<and> (type arg = REG \<and> unat (value arg) < NUM_REGISTERS \<longrightarrow>
        arg_value cfg arg s = Inr (registers s (value arg), s))
   \<and> (type arg = STACK \<longrightarrow>
        arg_value cfg arg s =
          Inr (ram s (STACK_LOC cfg (stack_ptr s) (value arg)),
               s\<lparr>registers := (registers s)(4 := STACK_LOC cfg (stack_ptr s) (value arg))\<rparr>))
   \<and> (type arg = PTR \<longrightarrow>
        arg_value cfg arg s =
          Inr (ram s (ram s (STACK_LOC cfg (stack_ptr s) (value arg))),
               s\<lparr>registers := (registers s)
                    (4 := STACK_LOC cfg (stack_ptr s) (value arg),
                     5 := ram s (STACK_LOC cfg (stack_ptr s) (value arg)))\<rparr>))"
  by (simp add: arg_value_def Let_def)

theorem arg_value_reads_operand_witness:
  "arg_value example_config \<lparr>type = VAL, value = 7\<rparr> example_state = Inr (7, example_state)
   \<and> unat (0 :: byte) < NUM_REGISTERS
   \<and> arg_value example_config \<lparr>type = REG, value = 0\<rparr> example_state = Inr (200, example_state)
   \<and> arg_value example_config \<lparr>type = STACK, value = 0\<rparr> example_state =
        Inr (30, example_state\<lparr>registers := (registers example_state)(4 := 18)\<rparr>)
   \<and> arg_value example_config \<lparr>type = PTR, value = 0\<rparr> example_state =
        Inr (40, example_state\<lparr>registers := (registers example_state)(4 := 18, 5 := 30)\<rparr>)"
proof -
  have l: "STACK_LOC example_config (stack_ptr example_state) 0 = 18"
    and m: "ram example_state 18 = 30" "ram example_state 30 = 40"
    and g: "registers example_state 0 = 200"
    and n: "unat (0 :: byte) < NUM_REGISTERS"
    by (simp_all add: example_defs)
  from arg_value_reads_operand [of "\<lparr>type = VAL, value = 7\<rparr>" example_config example_state]
  have 1: "arg_value example_config \<lparr>type = VAL, value = 7\<rparr> example_state = Inr (7, example_state)"
    by simp
  from arg_value_reads_operand [of "\<lparr>type = REG, value = 0\<rparr>" example_config example_state] n g
  have 2: "arg_value example_config \<lparr>type = REG, value = 0\<rparr> example_state = Inr (200, example_state)"
    by simp
  from arg_value_reads_operand [of "\<lparr>type = STACK, value = 0\<rparr>" example_config example_state] l m
  have 3: "arg_value example_config \<lparr>type = STACK, value = 0\<rparr> example_state =
        Inr (30, example_state\<lparr>registers := (registers example_state)(4 := 18)\<rparr>)"
    by simp
  from arg_value_reads_operand [of "\<lparr>type = PTR, value = 0\<rparr>" example_config example_state] l m
  have 4: "arg_value example_config \<lparr>type = PTR, value = 0\<rparr> example_state =
        Inr (40, example_state\<lparr>registers := (registers example_state)(4 := 18, 5 := 30)\<rparr>)"
    by simp
  from 1 2 3 4 n show ?thesis by blast
qed

section \<open>Addition wraps\<close>

text \<open>
  C8: \<^verbatim>\<open>ADD\<close> on two register operands whose values sum to 256 or more stores
  (a + b) mod 256 in the destination register, the first operand, and raises no error:
  it returns 0 and changes nothing else.
\<close>

theorem add_wraps:
  assumes "opcode inst = ADD" and "type (arg1 inst) = REG" and "type (arg2 inst) = REG"
    and "unat (value (arg1 inst)) < NUM_REGISTERS" and "unat (value (arg2 inst)) < NUM_REGISTERS"
    and "256 \<le> unat (registers s (value (arg1 inst))) + unat (registers s (value (arg2 inst)))"
  shows "\<exists>d. run_instruction cfg inst s = Inr (0, s\<lparr>registers := (registers s)(value (arg1 inst) := d)\<rparr>)
    \<and> unat d = (unat (registers s (value (arg1 inst))) + unat (registers s (value (arg2 inst)))) mod 256
    \<and> unat d = unat (registers s (value (arg1 inst))) + unat (registers s (value (arg2 inst))) - 256"
proof -
  let ?a = "registers s (value (arg1 inst))" and ?b = "registers s (value (arg2 inst))"
  have r: "run_instruction cfg inst s
      = Inr (0, s\<lparr>registers := (registers s)(value (arg1 inst) := ?a + ?b)\<rparr>)"
    using assms(1-5) by (simp add: run_instruction_def)
  have m: "unat (?a + ?b) = (unat ?a + unat ?b) mod 256"
    by (simp add: unat_word_ariths)
  have "unat ?a < 256" "unat ?b < 256"
    using unsigned_less [of ?a, where ?'a = nat] unsigned_less [of ?b, where ?'a = nat]
    by simp_all
  with assms(6) have "(unat ?a + unat ?b) mod 256 = unat ?a + unat ?b - 256"
    by (simp add: mod_if)
  with r m show ?thesis by (intro exI [of _ "?a + ?b"]) simp
qed

theorem add_wraps_witness:
  "opcode example_add = ADD \<and> type (arg1 example_add) = REG \<and> type (arg2 example_add) = REG
   \<and> unat (value (arg1 example_add)) < NUM_REGISTERS
   \<and> unat (value (arg2 example_add)) < NUM_REGISTERS
   \<and> 256 \<le> unat (registers example_state (value (arg1 example_add)))
            + unat (registers example_state (value (arg2 example_add)))
   \<and> (\<exists>d. run_instruction example_config example_add example_state
            = Inr (0, example_state\<lparr>registers := (registers example_state)(0 := d)\<rparr>)
          \<and> unat d = (200 + 100) mod 256)"
proof -
  have h: "opcode example_add = ADD" "type (arg1 example_add) = REG" "type (arg2 example_add) = REG"
      "unat (value (arg1 example_add)) < NUM_REGISTERS"
      "unat (value (arg2 example_add)) < NUM_REGISTERS"
      "256 \<le> unat (registers example_state (value (arg1 example_add)))
            + unat (registers example_state (value (arg2 example_add)))"
    by (simp_all add: example_defs example_add_def)
  have v: "value (arg1 example_add) = 0"
    and g: "unat (registers example_state 0) = 200"
      "unat (registers example_state (value (arg2 example_add))) = 100"
    by (simp_all add: example_defs example_add_def)
  from add_wraps [OF h, of example_config]
  have "\<exists>d. run_instruction example_config example_add example_state
            = Inr (0, example_state\<lparr>registers := (registers example_state)(0 := d)\<rparr>)
          \<and> unat d = (200 + 100) mod 256"
    unfolding v g by blast
  with h show ?thesis by blast
qed

section \<open>Writing to a literal\<close>

text \<open>
  C9: \<^verbatim>\<open>mov\<close> on a \<^verbatim>\<open>VAL\<close> destination is a no-op: it returns the state as it got it
  and does not abort. In particular a \<^verbatim>\<open>REF\<close> with a \<^verbatim>\<open>VAL\<close> first argument (and a
  \<^verbatim>\<open>STACK\<close> or \<^verbatim>\<open>PTR\<close> second argument, as \<^verbatim>\<open>REF\<close> requires) runs without fault,
  returns 0, and changes nothing but scratch register 4, which holds the address computed.
\<close>

theorem mov_to_val_is_noop:
  "(type arg = VAL \<longrightarrow> mov cfg arg s = Inr s)
   \<and> (opcode inst = REF \<and> type (arg1 inst) = VAL \<and> type (arg2 inst) = STACK \<longrightarrow>
        run_instruction cfg inst s =
          Inr (0, s\<lparr>registers := (registers s)
                 (4 := STACK_LOC cfg (stack_ptr s) (value (arg2 inst)))\<rparr>))
   \<and> (opcode inst = REF \<and> type (arg1 inst) = VAL \<and> type (arg2 inst) = PTR \<longrightarrow>
        run_instruction cfg inst s =
          Inr (0, s\<lparr>registers := (registers s)
                 (4 := ram s (STACK_LOC cfg (stack_ptr s) (value (arg2 inst))))\<rparr>))"
  by (simp add: mov_def run_instruction_def Let_def)

theorem mov_to_val_is_noop_witness:
  "mov example_config \<lparr>type = VAL, value = 5\<rparr> example_state = Inr example_state
   \<and> run_instruction example_config ref_val_stack example_state =
        Inr (0, example_state\<lparr>registers := (registers example_state)(4 := 18)\<rparr>)
   \<and> run_instruction example_config ref_val_ptr example_state =
        Inr (0, example_state\<lparr>registers := (registers example_state)(4 := 30)\<rparr>)"
proof -
  have a: "opcode ref_val_stack = REF \<and> type (arg1 ref_val_stack) = VAL
      \<and> type (arg2 ref_val_stack) = STACK"
    and b: "opcode ref_val_ptr = REF \<and> type (arg1 ref_val_ptr) = VAL
      \<and> type (arg2 ref_val_ptr) = PTR"
    and l: "STACK_LOC example_config (stack_ptr example_state) (value (arg2 ref_val_stack)) = 18"
      "ram example_state (STACK_LOC example_config (stack_ptr example_state)
         (value (arg2 ref_val_ptr))) = 30"
    by (simp_all add: example_defs ref_val_stack_def ref_val_ptr_def)
  from mov_to_val_is_noop [of "\<lparr>type = VAL, value = 5\<rparr>" example_config example_state]
  have 1: "mov example_config \<lparr>type = VAL, value = 5\<rparr> example_state = Inr example_state"
    by simp
  from mov_to_val_is_noop [where inst = ref_val_stack and cfg = example_config
      and s = example_state] a
  have 2: "run_instruction example_config ref_val_stack example_state =
        Inr (0, example_state\<lparr>registers := (registers example_state)(4 := 18)\<rparr>)"
    unfolding l by blast
  from mov_to_val_is_noop [where inst = ref_val_ptr and cfg = example_config
      and s = example_state] b
  have 3: "run_instruction example_config ref_val_ptr example_state =
        Inr (0, example_state\<lparr>registers := (registers example_state)(4 := 30)\<rparr>)"
    unfolding l by blast
  from 1 2 3 show ?thesis by blast
qed

end
